theory Spec2Isabelle
  imports Main "HOL-Library.Word" "HOL-Library.Multiset" "HOL-Library.Sublist"
    "HOL-Library.Char_ord" "HOL-Library.List_Lexorder"
begin

section \<open>The Myst IV big file codec (m4bf.py)\<close>

text \<open>
  A shallow embedding of \<^verbatim>\<open>src/m4bf.py\<close>. Python's \<^verbatim>\<open>bytes\<close> are lists of
  8-bit words, a stream (the mmap object with its read position) is the list of bytes
  not yet read, Python's unbounded integers are \<open>nat\<close> (sizes, offsets and counts are
  never negative). A name is a \<open>string\<close>: HOL characters are exactly the code points
  0 to 255, the ones \<^verbatim>\<open>encode('latin1')\<close> accepts, one byte each.
  Exceptions are values of the type \<open>error\<close>.
\<close>

subsection \<open>Errors\<close>

datatype error =
    StructError
    \<comment> \<open>\<^verbatim>\<open>struct.error\<close>: \<^verbatim>\<open>unpack\<close> got fewer bytes than the format needs, or
        \<^verbatim>\<open>pack\<close> got a number outside the range of the format\<close>
  | NotBigFile string nat string
    \<comment> \<open>the \<^verbatim>\<open>ValueError\<close> of \<^verbatim>\<open>BigFile.__init__\<close>; its message is built from the
        path and the decoded magic, version and root name\<close>
  | MmapEmpty
    \<comment> \<open>the \<^verbatim>\<open>ValueError\<close> of \<^verbatim>\<open>mmap.mmap\<close> on a file of length 0\<close>
  | RecursionError
    \<comment> \<open>the recursion of \<^verbatim>\<open>read_entries\<close> went deeper than the bound given to it\<close>

subsection \<open>Binary primitives: struct.pack and struct.unpack\<close>

type_synonym byte = "8 word"
type_synonym bytes = "byte list"

text \<open>\<^verbatim>\<open>pack('<B', n)\<close>: one unsigned byte, \<^verbatim>\<open>struct.error\<close> above 255.\<close>

definition pack_B :: "nat \<Rightarrow> error + bytes" where
  "pack_B n = (if n < 256 then Inr [of_nat n] else Inl StructError)"

text \<open>\<^verbatim>\<open>pack('<I', n)\<close>: four bytes, little-endian, \<^verbatim>\<open>struct.error\<close> from \<open>2 ^ 32\<close> on.\<close>

definition le32 :: "nat \<Rightarrow> bytes" where
  "le32 n = [of_nat n, of_nat (n div 256), of_nat (n div 65536), of_nat (n div 16777216)]"

definition pack_I :: "nat \<Rightarrow> error + bytes" where
  "pack_I n = (if n < 4294967296 then Inr (le32 n) else Inl StructError)"





subsection \<open>Length-prefixed strings\<close>

definition encode_latin1 :: "string \<Rightarrow> bytes" where
  "encode_latin1 s = map (\<lambda>c. of_nat (of_char c)) s"



text \<open>The format \<^verbatim>\<open>'<n>s'\<close> of \<^verbatim>\<open>pack\<close> cuts the bytes to \<open>n\<close> or fills them up
  with zero bytes.\<close>

definition pack_s :: "nat \<Rightarrow> bytes \<Rightarrow> bytes" where
  "pack_s n bs = take n bs @ replicate (n - length bs) 0"


text \<open>
  \<^verbatim>\<open>
  def str_pack(s):
      len_str = len(s) + (1 if s else 0)
      return pack(f'<I{len_str}s', len_str, s.encode('latin1'))
  \<close>
\<close>

definition str_pack :: "string \<Rightarrow> error + bytes" where
  "str_pack s =
     (let len_str = length s + (if s \<noteq> [] then 1 else 0) in
      case pack_I len_str of
        Inl e \<Rightarrow> Inl e
      | Inr b \<Rightarrow> Inr (b @ pack_s len_str (encode_latin1 s)))"

subsection \<open>The node model\<close>

text \<open>
  \<^verbatim>\<open>DirNode\<close> has a name and the list of its children in insertion order,
  \<^verbatim>\<open>FileNode\<close> a name, a size and an offset. The methods of \<^verbatim>\<open>DirNode\<close> below take
  the fields of \<open>self\<close> they use: the name and the children, or the children only.
\<close>

datatype node =
    DirNode string "node list"
  | FileNode string nat nat

fun is_DirNode :: "node \<Rightarrow> bool" where
  "is_DirNode (DirNode _ _) = True"
| "is_DirNode (FileNode _ _ _) = False"

fun is_FileNode :: "node \<Rightarrow> bool" where
  "is_FileNode (DirNode _ _) = False"
| "is_FileNode (FileNode _ _ _) = True"

definition num_subdirs :: "node list \<Rightarrow> nat" where
  "num_subdirs children = length (filter is_DirNode children)"

definition num_files :: "node list \<Rightarrow> nat" where
  "num_files children = length (filter is_FileNode children)"

subsection \<open>Size prediction: size_header\<close>

text \<open>
  \<^verbatim>\<open>
  def size_header(self, size = 19):
      size += len(str_pack(self.name)) + 1
      for d in iter(d for d in self.children if isinstance(d, DirNode)):
          size = d.size_header(size)
      size += 4
      for f in iter(f for f in self.children if isinstance(f, FileNode)):
          size += len(str_pack(f.name)) + 4 + 4
      return size
  \<close>
  The two loops are \<open>size_header_dirs\<close> and \<open>size_header_files\<close>; each walks all the
  children and skips those of the other class.
\<close>

fun size_header_files :: "node list \<Rightarrow> nat \<Rightarrow> error + nat" where
  "size_header_files [] sz = Inr sz"
| "size_header_files (FileNode name _ _ # children) sz =
     (case str_pack name of
        Inl e \<Rightarrow> Inl e
      | Inr b \<Rightarrow> size_header_files children (sz + (length b + 4 + 4)))"
| "size_header_files (DirNode _ _ # children) sz = size_header_files children sz"

fun size_header :: "string \<Rightarrow> node list \<Rightarrow> nat \<Rightarrow> error + nat"
  and size_header_dirs :: "node list \<Rightarrow> nat \<Rightarrow> error + nat" where
  "size_header name children sz =
     (case str_pack name of
        Inl e \<Rightarrow> Inl e
      | Inr b \<Rightarrow>
          (case size_header_dirs children (sz + (length b + 1)) of
             Inl e \<Rightarrow> Inl e
           | Inr sz' \<Rightarrow> size_header_files children (sz' + 4)))"
| "size_header_dirs [] sz = Inr sz"
| "size_header_dirs (DirNode name cs # children) sz =
     (case size_header name cs sz of
        Inl e \<Rightarrow> Inl e
      | Inr sz' \<Rightarrow> size_header_dirs children sz')"
| "size_header_dirs (FileNode _ _ _ # children) sz = size_header_dirs children sz"

subsection \<open>Encoding: write_entries\<close>

text \<open>
  \<^verbatim>\<open>
  def write_entries(self, f):
      f.write(pack('<B', self.num_subdirs))
      for child in self.children:
          if isinstance(child, DirNode):
              f.write(str_pack(child.name))
              child.write_entries(f)
      f.write(pack('<I', self.num_files))
      for child in self.children:
          if isinstance(child, FileNode):
              f.write(str_pack(child.name))
              f.write(pack('<I', child.size))
              f.write(pack('<I', child.offset))
  \<close>
  The result is the bytes written to \<open>f\<close>, or the exception.
\<close>

fun write_files :: "node list \<Rightarrow> error + bytes" where
  "write_files [] = Inr []"
| "write_files (FileNode name sz offset # children) =
     (case str_pack name of
        Inl e \<Rightarrow> Inl e
      | Inr a \<Rightarrow>
          (case pack_I sz of
             Inl e \<Rightarrow> Inl e
           | Inr b \<Rightarrow>
               (case pack_I offset of
                  Inl e \<Rightarrow> Inl e
                | Inr c \<Rightarrow>
                    (case write_files children of
                       Inl e \<Rightarrow> Inl e
                     | Inr d \<Rightarrow> Inr (a @ b @ c @ d)))))"
| "write_files (DirNode _ _ # children) = write_files children"

fun write_entries :: "node list \<Rightarrow> error + bytes"
  and write_subdirs :: "node list \<Rightarrow> error + bytes" where
  "write_entries children =
     (case pack_B (num_subdirs children) of
        Inl e \<Rightarrow> Inl e
      | Inr a \<Rightarrow>
          (case write_subdirs children of
             Inl e \<Rightarrow> Inl e
           | Inr b \<Rightarrow>
               (case pack_I (num_files children) of
                  Inl e \<Rightarrow> Inl e
                | Inr c \<Rightarrow>
                    (case write_files children of
                       Inl e \<Rightarrow> Inl e
                     | Inr d \<Rightarrow> Inr (a @ b @ c @ d)))))"
| "write_subdirs [] = Inr []"
| "write_subdirs (DirNode name cs # children) =
     (case str_pack name of
        Inl e \<Rightarrow> Inl e
      | Inr a \<Rightarrow>
          (case write_entries cs of
             Inl e \<Rightarrow> Inl e
           | Inr b \<Rightarrow>
               (case write_subdirs children of
                  Inl e \<Rightarrow> Inl e
                | Inr c \<Rightarrow> Inr (a @ b @ c))))"
| "write_subdirs (FileNode _ _ _ # children) = write_subdirs children"

subsection \<open>Decoding: read_entries\<close>




subsection \<open>Enumeration: files\<close>

text \<open>
  \<^verbatim>\<open>
  def files(self, path: Path = None):
      path = path or Path(self.name)
      for child in self.children:
          if isinstance(child, FileNode):
              yield child, path.joinpath(child.name), child.size, child.offset
          elif isinstance(child, DirNode):
              yield from child.files(path.joinpath(child.name))
  \<close>
  A path is the list of its components, and \<open>joinpath\<close> adds one at the end. The
  generator is the list of what it yields.
\<close>

type_synonym path = "string list"

fun files :: "node list \<Rightarrow> path \<Rightarrow> (node \<times> path \<times> nat \<times> nat) list" where
  "files [] path = []"
| "files (FileNode name sz offset # children) path =
     (FileNode name sz offset, path @ [name], sz, offset) # files children path"
| "files (DirNode name cs # children) path =
     files cs (path @ [name]) @ files children path"

subsection \<open>Packing: from_path\<close>

text \<open>
  The source directory: the regular files of a directory with their contents and its
  subdirectories, as \<open>path.walk()\<close> lists them (in any order, names distinct within
  a directory).
\<close>

datatype fsdir = FsDir "(string \<times> bytes) list" "(string \<times> fsdir) list"



text \<open>\<open>name.read_bytes()\<close> for a path below the source directory.\<close>

fun lookup :: "(string \<times> 'a) list \<Rightarrow> string \<Rightarrow> 'a option" where
  "lookup [] n = None"
| "lookup ((k, v) # kvs) n = (if k = n then Some v else lookup kvs n)"

fun read_bytes :: "fsdir \<Rightarrow> path \<Rightarrow> bytes option"
  and read_bytes_dirs :: "(string \<times> fsdir) list \<Rightarrow> string \<Rightarrow> path \<Rightarrow> bytes option" where
  "read_bytes (FsDir filenames dirnames) [] = None"
| "read_bytes (FsDir filenames dirnames) [n] = lookup filenames n"
| "read_bytes (FsDir filenames dirnames) (n # m # p) = read_bytes_dirs dirnames n (m # p)"
| "read_bytes_dirs [] n p = None"
| "read_bytes_dirs ((k, d) # ds) n p =
     (if k = n then read_bytes d p else read_bytes_dirs ds n p)"


text \<open>
  \<^verbatim>\<open>
  with bigfile.open('wb') as f:
      f.write(str_pack('UBI_BF_SIG'))
      f.write(pack('<I', 1))
      f.write(str_pack(''))
      self.write_entries(f)
      for _, name, *_ in self.files(path):
          f.write(name.read_bytes())
  \<close>
\<close>

definition write_preamble :: "error + bytes" where
  "write_preamble =
     (case str_pack ''UBI_BF_SIG'' of
        Inl e \<Rightarrow> Inl e
      | Inr a \<Rightarrow>
          (case pack_I 1 of
             Inl e \<Rightarrow> Inl e
           | Inr b \<Rightarrow>
               (case str_pack [] of
                  Inl e \<Rightarrow> Inl e
                | Inr c \<Rightarrow> Inr (a @ b @ c))))"



subsection \<open>Opening an archive: BigFile.__init__\<close>



subsection \<open>Extraction\<close>




subsection \<open>Notions used in the statements\<close>

text \<open>The shape of a tree: its structure and names, with every size and offset set to 0.\<close>

fun forget_layout :: "node \<Rightarrow> node" where
  "forget_layout (DirNode name cs) = DirNode name (map forget_layout cs)"
| "forget_layout (FileNode name _ _) = FileNode name 0 0"

text \<open>Every directory of the tree, the root included, has at most 255 subdirectories.\<close>

fun dirs_fit :: "node list \<Rightarrow> bool"
  and dirs_fit_each :: "node list \<Rightarrow> bool" where
  "dirs_fit children = (num_subdirs children \<le> 255 \<and> dirs_fit_each children)"
| "dirs_fit_each [] = True"
| "dirs_fit_each (DirNode _ cs # children) = (dirs_fit cs \<and> dirs_fit_each children)"
| "dirs_fit_each (FileNode _ _ _ # children) = dirs_fit_each children"

text \<open>
  The bytes of the entry of one child: for a subdirectory its name and its own entries,
  for a file its name, size and offset. \<open>concat_results\<close> puts the entries of a list
  of children one after the other; the first exception ends it.
\<close>

fun entry_bytes :: "node \<Rightarrow> error + bytes" where
  "entry_bytes (DirNode name cs) =
     (case str_pack name of
        Inl e \<Rightarrow> Inl e
      | Inr a \<Rightarrow> (case write_entries cs of Inl e \<Rightarrow> Inl e | Inr b \<Rightarrow> Inr (a @ b)))"
| "entry_bytes (FileNode name sz offset) =
     (case str_pack name of
        Inl e \<Rightarrow> Inl e
      | Inr a \<Rightarrow>
          (case pack_I sz of
             Inl e \<Rightarrow> Inl e
           | Inr b \<Rightarrow> (case pack_I offset of Inl e \<Rightarrow> Inl e | Inr c \<Rightarrow> Inr (a @ b @ c))))"

fun concat_results :: "(error + bytes) list \<Rightarrow> error + bytes" where
  "concat_results [] = Inr []"
| "concat_results (Inl e # rs) = Inl e"
| "concat_results (Inr b # rs) =
     (case concat_results rs of Inl e \<Rightarrow> Inl e | Inr bs \<Rightarrow> Inr (b @ bs))"

text \<open>
  Every name of the tree is shorter than \<open>2 ^ 32 - 1\<close> characters, so that
  \<open>str_pack\<close> can write its length.
\<close>

fun names_fit :: "node list \<Rightarrow> bool" where
  "names_fit [] = True"
| "names_fit (DirNode name cs # children) =
     (length name < 4294967295 \<and> names_fit cs \<and> names_fit children)"
| "names_fit (FileNode name _ _ # children) =
     (length name < 4294967295 \<and> names_fit children)"







text \<open>In every directory of the tree all files come before all subdirectories.\<close>

fun files_first :: "node list \<Rightarrow> bool"
  and files_first_each :: "node list \<Rightarrow> bool" where
  "files_first children =
     (children = filter is_FileNode children @ filter is_DirNode children
      \<and> files_first_each children)"
| "files_first_each [] = True"
| "files_first_each (DirNode _ cs # children) = (files_first cs \<and> files_first_each children)"
| "files_first_each (FileNode _ _ _ # children) = files_first_each children"

section \<open>Properties\<close>

declare write_entries.simps(1) [simp del]
declare size_header.simps(1) [simp del]

subsection \<open>Lengths of the encoded fields\<close>

lemma pack_I_length: "pack_I n = Inr b \<Longrightarrow> length b = 4"
  by (auto simp: pack_I_def le32_def split: if_splits)

lemma pack_B_length: "pack_B n = Inr b \<Longrightarrow> length b = 1"
  by (auto simp: pack_B_def split: if_splits)

lemma str_pack_length:
  "str_pack s = Inr b \<Longrightarrow> length b = 4 + (length s + (if s \<noteq> [] then 1 else 0))"
  by (auto simp: str_pack_def Let_def pack_s_def encode_latin1_def
      dest: pack_I_length split: sum.splits)

lemma str_pack_empty: "str_pack [] = Inr [0, 0, 0, 0]"
  by (simp add: str_pack_def pack_I_def le32_def pack_s_def encode_latin1_def)

lemma write_preamble_length: "write_preamble = Inr p \<Longrightarrow> length p = 23"
  by (auto simp: write_preamble_def str_pack_def pack_I_def le32_def pack_s_def
      encode_latin1_def)

subsection \<open>size_header and write_entries\<close>

lemma write_files_size:
  "write_files cs = Inr bs \<Longrightarrow> size_header_files cs sz = Inr (sz + length bs)"
proof (induction cs arbitrary: bs sz rule: write_files.induct)
  case 1
  then show ?case by simp
next
  case (2 name s offset children)
  then show ?case
    by (auto split: sum.splits dest!: pack_I_length)
next
  case (3 uu uv children)
  then show ?case by simp
qed

lemma write_entries_size:
  "write_entries cs = Inr bs \<Longrightarrow> str_pack name = Inr nb \<Longrightarrow>
     size_header name cs sz = Inr (sz + length nb + length bs)"
  and write_subdirs_size:
  "write_subdirs cs = Inr bs \<Longrightarrow> size_header_dirs cs sz = Inr (sz + length bs)"
proof (induction cs and cs arbitrary: bs name nb sz and bs sz
    rule: write_entries_write_subdirs.induct)
  case (1 children)
  from "1.prems"(1) obtain a b c d where
    a: "pack_B (num_subdirs children) = Inr a" and b: "write_subdirs children = Inr b"
    and c: "pack_I (num_files children) = Inr c" and d: "write_files children = Inr d"
    and bs: "bs = a @ b @ c @ d"
    by (auto simp: write_entries.simps(1) split: sum.splits)
  from a have la: "length a = 1" by (rule pack_B_length)
  from c have lc: "length c = 4" by (rule pack_I_length)
  have "size_header_dirs children (sz + (length nb + 1)) = Inr (sz + (length nb + 1) + length b)"
    using "1.IH" a b by simp
  moreover have "size_header_files children (sz + (length nb + 1) + length b + 4)
      = Inr (sz + (length nb + 1) + length b + 4 + length d)"
    using d by (rule write_files_size)
  ultimately show ?case using "1.prems"(2) bs la lc
    by (simp add: size_header.simps(1) add.assoc)
next
  case 2
  then show ?case by simp
next
  case (3 name' cs children)
  from "3.prems" obtain a b c where
    a: "str_pack name' = Inr a" and b: "write_entries cs = Inr b"
    and c: "write_subdirs children = Inr c" and bs: "bs = a @ b @ c"
    by (auto split: sum.splits)
  have "size_header name' cs sz = Inr (sz + length a + length b)"
    using "3.IH"(1) a b by simp
  moreover have "size_header_dirs children (sz + length a + length b)
      = Inr (sz + length a + length b + length c)"
    using "3.IH"(2) a b c by simp
  ultimately show ?case using bs by (simp add: add.assoc)
next
  case (4 uu uv uw children)
  then show ?case by simp
qed

lemma size_header_files_forget:
  "size_header_files (map forget_layout cs) sz = size_header_files cs sz"
  by (induction cs sz rule: size_header_files.induct) (auto split: sum.splits)

lemma size_header_forget:
  "size_header name (map forget_layout cs) sz = size_header name cs sz"
  and size_header_dirs_forget:
  "size_header_dirs (map forget_layout cs) sz = size_header_dirs cs sz"
proof (induction name cs sz and cs sz rule: size_header_size_header_dirs.induct)
  case (1 name children sz)
  show ?case
  proof (cases "str_pack name")
    case (Inl e)
    then show ?thesis by (simp add: size_header.simps(1))
  next
    case (Inr b)
    with "1.IH" show ?thesis
      by (simp add: size_header.simps(1) size_header_files_forget split: sum.splits)
  qed
next
  case (2 sz)
  then show ?case by simp
next
  case (3 name cs children sz)
  then show ?case by (auto split: sum.splits)
next
  case (4 uu uv uw children sz)
  then show ?case by simp
qed

lemma size_header_same_shape:
  assumes "map forget_layout cs = map forget_layout cs'"
  shows "size_header name cs sz = size_header name cs' sz"
proof -
  have "size_header name cs sz = size_header name (map forget_layout cs) sz"
    by (simp add: size_header_forget)
  also have "\<dots> = size_header name cs' sz"
    using assms by (simp add: size_header_forget)
  finally show ?thesis .
qed

text \<open>
  C2, as the code has it. For every tree for which \<open>write_entries\<close> returns,
  \<open>size_header\<close> of the root (whose name is empty, with the default start 19) is the
  length of the preamble plus the number of bytes \<open>write_entries\<close> wrote. For every
  tree, the result of \<open>size_header\<close> is the same as for any tree of the same shape
  (same structure and names), whatever the sizes and offsets of the files.
\<close>

theorem size_header_predicts_write_entries:
  "(write_preamble = Inr p \<and> write_entries children = Inr bs
      \<longrightarrow> size_header [] children 19 = Inr (length p + length bs))
   \<and> (map forget_layout children = map forget_layout children'
      \<longrightarrow> size_header name children sz = size_header name children' sz)"
proof (intro conjI impI)
  assume h: "write_preamble = Inr p \<and> write_entries children = Inr bs"
  from h have "length p = 23" by (simp add: write_preamble_length)
  moreover have "size_header [] children 19 = Inr (19 + length [0::byte, 0, 0, 0] + length bs)"
    using h str_pack_empty by (simp only: write_entries_size)
  ultimately show "size_header [] children 19 = Inr (length p + length bs)"
    by simp
next
  assume "map forget_layout children = map forget_layout children'"
  then show "size_header name children sz = size_header name children' sz"
    by (rule size_header_same_shape)
qed

lemmas enc_defs = str_pack_def pack_I_def pack_B_def le32_def pack_s_def encode_latin1_def
  num_subdirs_def num_files_def

theorem size_header_predicts_write_entries_witness:
  "write_preamble
     = Inr [11, 0, 0, 0, 85, 66, 73, 95, 66, 70, 95, 83, 73, 71, 0, 1, 0, 0, 0, 0, 0, 0, 0]
   \<and> write_entries [FileNode ''a'' 5 7, DirNode ''d'' []]
       = Inr [1, 2, 0, 0, 0, 100, 0, 0, 0, 0, 0, 0, 1, 0, 0, 0, 2, 0, 0, 0, 97, 0,
              5, 0, 0, 0, 7, 0, 0, 0]
   \<and> size_header [] [FileNode ''a'' 5 7, DirNode ''d'' []] 19 = Inr 53
   \<and> map forget_layout [FileNode ''a'' 5 7, DirNode ''d'' []]
       = map forget_layout [FileNode ''a'' 0 9, DirNode ''d'' []]
   \<and> size_header ''r'' [FileNode ''a'' 5 7, DirNode ''d'' []] 3
       = size_header ''r'' [FileNode ''a'' 0 9, DirNode ''d'' []] 3"
proof -
  have p: "write_preamble
     = Inr [11, 0, 0, 0, 85, 66, 73, 95, 66, 70, 95, 83, 73, 71, 0, 1, 0, 0, 0, 0, 0, 0, 0]"
    by (simp add: write_preamble_def enc_defs)
  have w: "write_entries [FileNode ''a'' 5 7, DirNode ''d'' []]
       = Inr [1, 2, 0, 0, 0, 100, 0, 0, 0, 0, 0, 0, 1, 0, 0, 0, 2, 0, 0, 0, 97, 0,
              5, 0, 0, 0, 7, 0, 0, 0]"
    by (simp add: write_entries.simps(1) enc_defs)
  have s: "map forget_layout [FileNode ''a'' 5 7, DirNode ''d'' []]
       = map forget_layout [FileNode ''a'' 0 9, DirNode ''d'' []]"
    by simp
  from size_header_predicts_write_entries
    [of "[11, 0, 0, 0, 85, 66, 73, 95, 66, 70, 95, 83, 73, 71, 0, 1, 0, 0, 0, 0, 0, 0, 0]"
        "[FileNode ''a'' 5 7, DirNode ''d'' []]"
        "[1, 2, 0, 0, 0, 100, 0, 0, 0, 0, 0, 0, 1, 0, 0, 0, 2, 0, 0, 0, 97, 0,
          5, 0, 0, 0, 7, 0, 0, 0]"
        "[FileNode ''a'' 0 9, DirNode ''d'' []]" "''r''" 3]
  show ?thesis using p w s by simp
qed

lemma str_pack_d: "str_pack ''d'' = Inr [2, 0, 0, 0, 100, 0]"
  by (simp add: enc_defs)

lemma size_header_dirs_replicate_d:
  "size_header_dirs (replicate n (DirNode ''d'' [])) sz = Inr (sz + 11 * n)"
  by (induction n arbitrary: sz) (auto simp: size_header.simps(1) str_pack_d)

lemma size_header_files_replicate_dirs:
  "size_header_files (replicate n (DirNode name cs)) sz = Inr sz"
  by (induction n arbitrary: sz) auto

lemma num_subdirs_replicate_dirs: "num_subdirs (replicate n (DirNode name cs)) = n"
  by (simp add: num_subdirs_def)

lemma size_header_replicate_d:
  "size_header [] (replicate n (DirNode ''d'' [])) 19 = Inr (28 + 11 * n)"
  by (simp add: size_header.simps(1) size_header_dirs_replicate_d
      size_header_files_replicate_dirs str_pack_empty)

lemma write_entries_256_d: "write_entries (replicate 256 (DirNode ''d'' [])) = Inl StructError"
proof -
  have "num_subdirs (replicate 256 (DirNode ''d'' [])) = 256"
    by (rule num_subdirs_replicate_dirs)
  then show ?thesis by (simp only: write_entries.simps(1) pack_B_def) simp
qed

text \<open>
  The claim C2 as stated, for every tree, fails where \<open>write_entries\<close> raises
  \<open>struct.error\<close>. For a root with 256 subdirectories named \<open>d\<close>, \<open>size_header\<close>
  returns 2844 and \<open>write_entries\<close> fails at its first \<open>pack\<close>, with no byte written.
  For a root with one file \<open>a\<close> of size \<open>2 ^ 32\<close>, \<open>size_header\<close> returns 42 and
  \<open>write_entries\<close> fails when it packs the size.
\<close>

theorem size_header_returns_where_write_entries_fails:
  "size_header [] (replicate 256 (DirNode ''d'' [])) 19 = Inr 2844
   \<and> write_entries (replicate 256 (DirNode ''d'' [])) = Inl StructError
   \<and> size_header [] [FileNode ''a'' 4294967296 0] 19 = Inr 42
   \<and> write_entries [FileNode ''a'' 4294967296 0] = Inl StructError"
proof (intro conjI)
  show "size_header [] (replicate 256 (DirNode ''d'' [])) 19 = Inr 2844"
    by (simp only: size_header_replicate_d) simp
  show "write_entries (replicate 256 (DirNode ''d'' [])) = Inl StructError"
    by (rule write_entries_256_d)
  show "size_header [] [FileNode ''a'' 4294967296 0] 19 = Inr 42"
    by (simp add: size_header.simps(1) enc_defs)
  show "write_entries [FileNode ''a'' 4294967296 0] = Inl StructError"
    by (simp add: write_entries.simps(1) enc_defs)
qed

subsection \<open>The order of the entries on disk\<close>

lemma write_files_concat:
  "write_files cs = concat_results (map entry_bytes (filter is_FileNode cs))"
  by (induction cs rule: write_files.induct) (auto split: sum.splits)

lemma write_subdirs_concat:
  "write_subdirs cs = concat_results (map entry_bytes (filter is_DirNode cs))"
proof (induction cs)
  case Nil
  then show ?case by simp
next
  case (Cons c cs)
  then show ?case by (cases c) (auto split: sum.splits)
qed

lemma is_FileNode_iff: "is_FileNode c \<longleftrightarrow> \<not> is_DirNode c"
  by (cases c) simp_all

lemma is_FileNode_eq: "is_FileNode = (\<lambda>c. \<not> is_DirNode c)"
  by (rule ext) (rule is_FileNode_iff)

lemma filter_dirs_of_dirs_first:
  "filter is_DirNode (filter is_DirNode cs @ filter is_FileNode cs) = filter is_DirNode cs"
  by (simp add: is_FileNode_eq)

lemma filter_files_of_dirs_first:
  "filter is_FileNode (filter is_DirNode cs @ filter is_FileNode cs) = filter is_FileNode cs"
  by (simp add: is_FileNode_eq)

text \<open>
  C6. The bytes \<open>write_entries\<close> writes for a directory are: the number of
  subdirectories, the entries of all subdirectories in the order in which they are among
  the children, the number of files, the entries of all files in the order in which they
  are among the children. So the result is that of the children rearranged with the
  subdirectories first, however they were interleaved.
\<close>

theorem write_entries_subdirs_before_files:
  "write_entries children =
     (case pack_B (length (filter is_DirNode children)) of
        Inl e \<Rightarrow> Inl e
      | Inr a \<Rightarrow>
          (case concat_results (map entry_bytes (filter is_DirNode children)) of
             Inl e \<Rightarrow> Inl e
           | Inr b \<Rightarrow>
               (case pack_I (length (filter is_FileNode children)) of
                  Inl e \<Rightarrow> Inl e
                | Inr c \<Rightarrow>
                    (case concat_results (map entry_bytes (filter is_FileNode children)) of
                       Inl e \<Rightarrow> Inl e
                     | Inr d \<Rightarrow> Inr (a @ b @ c @ d)))))
   \<and> write_entries children
       = write_entries (filter is_DirNode children @ filter is_FileNode children)"
proof
  show layout: "write_entries children =
     (case pack_B (length (filter is_DirNode children)) of
        Inl e \<Rightarrow> Inl e
      | Inr a \<Rightarrow>
          (case concat_results (map entry_bytes (filter is_DirNode children)) of
             Inl e \<Rightarrow> Inl e
           | Inr b \<Rightarrow>
               (case pack_I (length (filter is_FileNode children)) of
                  Inl e \<Rightarrow> Inl e
                | Inr c \<Rightarrow>
                    (case concat_results (map entry_bytes (filter is_FileNode children)) of
                       Inl e \<Rightarrow> Inl e
                     | Inr d \<Rightarrow> Inr (a @ b @ c @ d)))))"
    by (simp only: write_entries.simps(1) write_subdirs_concat write_files_concat
        num_subdirs_def num_files_def)
  show "write_entries children
       = write_entries (filter is_DirNode children @ filter is_FileNode children)"
    by (simp only: write_entries.simps(1) write_subdirs_concat write_files_concat
        num_subdirs_def num_files_def filter_dirs_of_dirs_first filter_files_of_dirs_first)
qed

subsection \<open>The one-byte count of subdirectories\<close>

lemma write_entries_fits:
  "write_entries cs = Inr bs \<Longrightarrow> dirs_fit cs"
  and write_subdirs_fits:
  "write_subdirs cs = Inr bs \<Longrightarrow> dirs_fit_each cs"
proof (induction cs and cs arbitrary: bs and bs rule: write_entries_write_subdirs.induct)
  case (1 children)
  then show ?case
    by (auto simp: write_entries.simps(1) pack_B_def split: sum.splits if_splits)
next
  case 2
  then show ?case by simp
next
  case (3 name cs children)
  then show ?case by (auto split: sum.splits)
next
  case (4 uu uv uw children)
  then show ?case by simp
qed

lemma write_entries_first_byte:
  "write_entries cs = Inr bs \<Longrightarrow> take 1 bs = [of_nat (num_subdirs cs)]"
  by (auto simp: write_entries.simps(1) pack_B_def split: sum.splits if_splits)

lemma write_entries_too_many_subdirs:
  "255 < num_subdirs cs \<Longrightarrow> write_entries cs = Inl StructError"
  by (simp add: write_entries.simps(1) pack_B_def)

lemma size_header_dirs_replicate:
  "size_header_dirs (replicate n (DirNode [] [])) sz = Inr (sz + 9 * n)"
  by (induction n arbitrary: sz) (auto simp: size_header.simps(1) str_pack_empty)

lemma size_header_files_replicate:
  "size_header_files (replicate n (DirNode [] [])) sz = Inr sz"
  by (induction n arbitrary: sz) auto

lemma size_header_replicate:
  "size_header [] (replicate n (DirNode [] [])) 19 = Inr (28 + 9 * n)"
  by (simp add: size_header.simps(1) size_header_dirs_replicate size_header_files_replicate
      str_pack_empty)

lemma num_subdirs_replicate: "num_subdirs (replicate n (DirNode [] [])) = n"
  by (simp add: num_subdirs_def)

lemma str_pack_fits: "length s < 4294967295 \<Longrightarrow> \<exists>b. str_pack s = Inr b"
  by (simp add: str_pack_def pack_I_def)

lemma size_header_files_total:
  "names_fit cs \<Longrightarrow> \<exists>n. size_header_files cs sz = Inr n"
proof (induction cs sz rule: size_header_files.induct)
  case (1 sz)
  show ?case by simp
next
  case (2 name uu uv children sz)
  from "2.prems" obtain b where b: "str_pack name = Inr b"
    using str_pack_fits by auto
  with "2.IH" "2.prems" show ?case by simp
next
  case (3 uu uv children sz)
  then show ?case by simp
qed

lemma size_header_total:
  "length name < 4294967295 \<Longrightarrow> names_fit cs \<Longrightarrow> \<exists>n. size_header name cs sz = Inr n"
  and size_header_dirs_total:
  "names_fit cs \<Longrightarrow> \<exists>n. size_header_dirs cs sz = Inr n"
proof (induction name cs sz and cs sz rule: size_header_size_header_dirs.induct)
  case (1 name children sz)
  from "1.prems"(1) obtain b where b: "str_pack name = Inr b"
    using str_pack_fits by auto
  from "1.IH" [OF b "1.prems"(2)] obtain sz' where
    d: "size_header_dirs children (sz + (length b + 1)) = Inr sz'" by auto
  from size_header_files_total [OF "1.prems"(2)] obtain n where
    "size_header_files children (sz' + 4) = Inr n" by auto
  with b d show ?case by (simp add: size_header.simps(1))
next
  case (2 sz)
  show ?case by simp
next
  case (3 name cs children sz)
  from "3.prems" have n: "length name < 4294967295" and cs: "names_fit cs"
    and ch: "names_fit children" by simp_all
  from "3.IH"(1) [OF n cs] obtain sz' where s: "size_header name cs sz = Inr sz'" by auto
  from "3.IH"(2) [OF s ch] s show ?case by simp
next
  case (4 uu uv uw children sz)
  then show ?case by simp
qed

lemma names_fit_replicate_d: "names_fit (replicate n (DirNode ''d'' []))"
  by (induction n) simp_all

text \<open>
  C10. If \<open>write_entries\<close> returns, every directory of the tree has at most 255
  subdirectories, and the first byte written is the number of subdirectories of the
  root. A directory with more than 255 subdirectories makes \<open>write_entries\<close> fail with
  \<open>struct.error\<close>, for instance one with 256 empty subdirectories. \<open>size_header\<close> has
  no such bound: it returns a size for every tree whose names are short enough for
  \<open>str_pack\<close>, whatever the number of subdirectories, for instance for a directory with
  any number \<open>n\<close> of empty subdirectories.
\<close>

theorem write_entries_at_most_255_subdirs:
  "(write_entries children = Inr bs
      \<longrightarrow> dirs_fit children \<and> take 1 bs = [of_nat (num_subdirs children)])
   \<and> (255 < num_subdirs children \<longrightarrow> write_entries children = Inl StructError)
   \<and> write_entries (replicate 256 (DirNode [] [])) = Inl StructError
   \<and> size_header [] (replicate n (DirNode [] [])) 19 = Inr (28 + 9 * n)
   \<and> (length name < 4294967295 \<and> names_fit children
        \<longrightarrow> (\<exists>m. size_header name children sz = Inr m))"
proof (intro conjI impI)
  assume "write_entries children = Inr bs"
  then show "dirs_fit children" and "take 1 bs = [of_nat (num_subdirs children)]"
    by (rule write_entries_fits, rule write_entries_first_byte)
next
  assume "255 < num_subdirs children"
  then show "write_entries children = Inl StructError"
    by (rule write_entries_too_many_subdirs)
next
  show "write_entries (replicate 256 (DirNode [] [])) = Inl StructError"
    by (rule write_entries_too_many_subdirs) (simp only: num_subdirs_replicate)
next
  show "size_header [] (replicate n (DirNode [] [])) 19 = Inr (28 + 9 * n)"
    by (rule size_header_replicate)
next
  assume "length name < 4294967295 \<and> names_fit children"
  then show "\<exists>m. size_header name children sz = Inr m"
    by (simp add: size_header_total)
qed

theorem write_entries_at_most_255_subdirs_witness:
  "write_entries [DirNode ''d'' []] = Inr [1, 2, 0, 0, 0, 100, 0, 0, 0, 0, 0, 0, 0, 0, 0, 0]
   \<and> dirs_fit [DirNode ''d'' []]
   \<and> 255 < num_subdirs (replicate 300 (DirNode [] []))
   \<and> write_entries (replicate 300 (DirNode [] [])) = Inl StructError
   \<and> size_header [] (replicate 300 (DirNode [] [])) 19 = Inr 2728
   \<and> length ''r'' < (4294967295 :: nat)
   \<and> names_fit (replicate 256 (DirNode ''d'' []))
   \<and> (\<exists>m. size_header ''r'' (replicate 256 (DirNode ''d'' [])) 19 = Inr m)
   \<and> write_entries (replicate 256 (DirNode ''d'' [])) = Inl StructError"
proof -
  have w: "write_entries [DirNode ''d'' []]
      = Inr [1, 2, 0, 0, 0, 100, 0, 0, 0, 0, 0, 0, 0, 0, 0, 0]"
    by (simp add: write_entries.simps(1) enc_defs)
  have n: "255 < num_subdirs (replicate 300 (DirNode [] []))"
    by (simp only: num_subdirs_replicate)
  have f: "names_fit (replicate 256 (DirNode ''d'' []))"
    by (rule names_fit_replicate_d)
  have l: "length ''r'' < (4294967295 :: nat)" by simp
  from write_entries_at_most_255_subdirs
    [of "[DirNode ''d'' []]" "[1, 2, 0, 0, 0, 100, 0, 0, 0, 0, 0, 0, 0, 0, 0, 0]" 300] w
  have 1: "dirs_fit [DirNode ''d'' []]"
    and 2: "size_header [] (replicate 300 (DirNode [] [])) 19 = Inr 2728"
    by simp_all
  from write_entries_at_most_255_subdirs [of "replicate 300 (DirNode [] [])" "[]" 0] n
  have 3: "write_entries (replicate 300 (DirNode [] [])) = Inl StructError"
    by blast
  from write_entries_at_most_255_subdirs
    [of "replicate 256 (DirNode ''d'' [])" "[]" 0 "''r''" 19] f l
  have 4: "\<exists>m. size_header ''r'' (replicate 256 (DirNode ''d'' [])) 19 = Inr m"
    by blast
  have 5: "write_entries (replicate 256 (DirNode ''d'' [])) = Inl StructError"
    by (rule write_entries_256_d)
  from w n f l 1 2 3 4 5 show ?thesis by blast
qed

subsection \<open>Numbers and strings: decoding what was encoded\<close>

















subsection \<open>Extraction\<close>





subsection \<open>The checks of open\<close>


















subsection \<open>Decoding what write_entries wrote\<close>




















subsection \<open>The offsets from_path assigns\<close>

declare files_first.simps(1) [simp del]



lemma files_append: "files (xs @ ys) p = files xs p @ files ys p"
  by (induction xs p rule: files.induct) simp_all












end
